theory Spec2Isabelle
  imports Complex_Main "HOL-Library.Log_Nat"
begin

section \<open>Python values shared by the modules\<close>

text \<open>
  The exceptions the modelled code can raise or let through. Every constructor stands for
  a subclass of Python's \<open>Exception\<close>; \<open>OtherError name\<close> is any further subclass,
  raised by a third-party library, given by its class name.
\<close>

datatype exn =
    FileNotFoundError
  | OverflowError
  | AttributeError
  | TypeError
  | OtherError string

text \<open>
  Python's \<open>float\<close> is modelled as \<open>real\<close>: a value is a finite number and the
  arithmetic on values is exact. The conversion \<open>float(n)\<close> of an \<open>int\<close> is kept as the
  machine does it. The value is the double nearest to \<open>n\<close>: \<open>n\<close> itself below
  \<open>2 ^ 53\<close>, and beyond that the 53 leading bits of \<open>n\<close>, rounded on the bits that
  are cut off, a tie to the even neighbour.
\<close>

definition py_float_value :: "int \<Rightarrow> real" where
  "py_float_value n =
     (let m = \<bar>n\<bar>
      in if m < 2 ^ 53 then of_int n
         else (let shift = nat (bitlen m) - 53;
                   q = m div 2 ^ shift;
                   r = m mod 2 ^ shift;
                   half = 2 ^ (shift - 1);
                   q = (if half < r \<or> (r = half \<and> odd q) then q + 1 else q)
               in of_int (sgn n * q * 2 ^ shift)))"

text \<open>
  The conversion raises \<open>OverflowError\<close> as soon as the integer rounds to \<open>2 ^ 1024\<close>,
  that is from the midpoint between the largest double and \<open>2 ^ 1024\<close> on.
\<close>

definition float_overflow_bound :: int where
  "float_overflow_bound = 2 ^ 1024 - 2 ^ 970"

definition py_float :: "int \<Rightarrow> exn + real" where
  "py_float n =
     (if \<bar>n\<bar> < float_overflow_bound then Inr (py_float_value n) else Inl OverflowError)"

text \<open>\<open>int(x)\<close> on a float truncates towards zero.\<close>

definition py_int :: "real \<Rightarrow> int" where
  "py_int x = (if 0 \<le> x then \<lfloor>x\<rfloor> else \<lceil>x\<rceil>)"

text \<open>\<open>numpy.round\<close> rounds to the nearest integer, a tie to the even neighbour.\<close>

definition np_round :: "real \<Rightarrow> real" where
  "np_round x =
     (let f = \<lfloor>x\<rfloor>; d = x - of_int f
      in of_int (if d < 1 / 2 then f
                 else if 1 / 2 < d then f + 1
                 else if even f then f else f + 1))"

text \<open>\<open>numpy.clip(x, lo, hi)\<close> is \<open>minimum(maximum(x, lo), hi)\<close>.\<close>

definition np_clip :: "real \<Rightarrow> real \<Rightarrow> real \<Rightarrow> real" where
  "np_clip x lo hi = min (max x lo) hi"

subsection \<open>Strings\<close>

text \<open>
  A Python \<open>str\<close> is a sequence of Unicode code points: a list of naturals. \<open>S\<close> turns
  an ASCII literal into one; a code point outside ASCII is written as its number
  (the en dash of the reason texts is 8211).
\<close>

type_synonym pystr = "nat list"

definition S :: "string \<Rightarrow> pystr" where
  "S s = map of_char s"

text \<open>
  The code points Python counts as whitespace, in \<open>str.strip\<close>, \<open>str.split\<close> and the
  regular expression class \<open>\s\<close> alike.
\<close>

definition py_isspace :: "nat \<Rightarrow> bool" where
  "py_isspace c \<longleftrightarrow>
     (9 \<le> c \<and> c \<le> 13) \<or> (28 \<le> c \<and> c \<le> 32) \<or> c = 133 \<or> c = 160 \<or> c = 5760
     \<or> (8192 \<le> c \<and> c \<le> 8202) \<or> c = 8232 \<or> c = 8233 \<or> c = 8239 \<or> c = 8287
     \<or> c = 12288"

text \<open>\<open>re.sub(r"\s+", " ", s)\<close>: every maximal run of whitespace becomes one space.\<close>

function re_sub_ws :: "pystr \<Rightarrow> pystr" where
  "re_sub_ws [] = []"
| "re_sub_ws (c # cs) =
     (if py_isspace c then 32 # re_sub_ws (dropWhile py_isspace cs) else c # re_sub_ws cs)"
  by pat_completeness auto
termination
  by (relation "measure length") (auto simp: length_dropWhile_le less_Suc_eq_le)

text \<open>\<open>s.strip()\<close>.\<close>

definition py_strip :: "pystr \<Rightarrow> pystr" where
  "py_strip s = rev (dropWhile py_isspace (rev (dropWhile py_isspace s)))"

text \<open>
  \<open>s.lower()\<close>. On a string of ASCII code points it maps A to Z to a to z and leaves
  the rest. On any other string the result comes from the case tables of the Unicode
  database of the running interpreter (about 1400 code points change, some to several
  code points, one depending on its position in the word); the tables are not part of
  the repository, so the lower-casing of such a string is a parameter, \<open>unicode_lower\<close>.
\<close>

definition ascii_lower_cp :: "nat \<Rightarrow> nat" where
  "ascii_lower_cp c = (if 65 \<le> c \<and> c \<le> 90 then c + 32 else c)"

definition py_lower :: "(pystr \<Rightarrow> pystr) \<Rightarrow> pystr \<Rightarrow> pystr" where
  "py_lower unicode_lower s =
     (if list_all (\<lambda>c. c < 128) s then map ascii_lower_cp s else unicode_lower s)"

text \<open>
  \<open>s.split()\<close>: the maximal runs of non-whitespace, in order. \<open>py_split_from w s\<close>
  scans \<open>s\<close> with the word \<open>w\<close> read so far.
\<close>

fun py_split_from :: "pystr \<Rightarrow> pystr \<Rightarrow> pystr list" where
  "py_split_from w [] = (if w = [] then [] else [w])"
| "py_split_from w (c # cs) =
     (if py_isspace c then (if w = [] then py_split_from [] cs else w # py_split_from [] cs)
      else py_split_from (w @ [c]) cs)"

definition py_split :: "pystr \<Rightarrow> pystr list" where
  "py_split s = py_split_from [] s"

text \<open>\<open>sep.join(xs)\<close>.\<close>

fun py_join :: "pystr \<Rightarrow> pystr list \<Rightarrow> pystr" where
  "py_join sep [] = []"
| "py_join sep [x] = x"
| "py_join sep (x # y # ys) = x @ sep @ py_join sep (y # ys)"

text \<open>\<open>t in s\<close> on strings: \<open>t\<close> occurs in \<open>s\<close> as a contiguous substring.\<close>

fun startswith :: "pystr \<Rightarrow> pystr \<Rightarrow> bool" where
  "startswith s [] = True"
| "startswith [] (t # ts) = False"
| "startswith (c # cs) (t # ts) = (c = t \<and> startswith cs ts)"

fun str_contains :: "pystr \<Rightarrow> pystr \<Rightarrow> bool" where
  "str_contains [] t = (t = [])"
| "str_contains (c # cs) t = (startswith (c # cs) t \<or> str_contains cs t)"

text \<open>\<open>list(dict.fromkeys(xs))\<close>: duplicates dropped, the first occurrence kept.\<close>

fun dict_fromkeys :: "'a list \<Rightarrow> 'a list" where
  "dict_fromkeys [] = []"
| "dict_fromkeys (x # xs) = x # dict_fromkeys (filter (\<lambda>y. y \<noteq> x) xs)"

text \<open>The Python values a caller may pass where the code tests the type at run time.\<close>

datatype pyval =
    PyNone
  | PyBool bool
  | PyInt int
  | PyFloat real
  | PyStr pystr
  | PyList "pyval list"

fun py_truthy :: "pyval \<Rightarrow> bool" where
  "py_truthy PyNone = False"
| "py_truthy (PyBool b) = b"
| "py_truthy (PyInt n) = (n \<noteq> 0)"
| "py_truthy (PyFloat x) = (x \<noteq> 0)"
| "py_truthy (PyStr s) = (s \<noteq> [])"
| "py_truthy (PyList xs) = (xs \<noteq> [])"

text \<open>\<open>isinstance(v, str)\<close>, and the string of a value that is one.\<close>

fun isinstance_str :: "pyval \<Rightarrow> bool" where
  "isinstance_str (PyStr s) = True"
| "isinstance_str v = False"

fun str_value :: "pyval \<Rightarrow> pystr" where
  "str_value (PyStr s) = s"
| "str_value v = []"

section \<open>The environment of the service\<close>

text \<open>
  What the service reads from outside itself. The three artifact files hold the trained
  regressor, the fitted scaler and the feature names (\<open>None\<close>: the file is not there).
  A feature matrix of one row is the list of its four entries; \<open>scaler.transform\<close> and
  \<open>model.predict\<close> are functions on it that return a row, respectively a prediction, or
  raise (the library refuses, for instance, a value too large for its number type). A
  prediction that is returned is a finite number. \<open>unicode_lower\<close> is the lower-casing
  of the interpreter's Unicode database.

  The four functions of gemini_client.py send a prompt to the hosted language model and
  decode its reply, and \<open>nltk_lemmas\<close> is the tokenizer, tagger and lemmatizer of the
  NLP toolkit; \<open>ensure_nltk\<close> is \<open>_ensure_nltk\<close> with the imports that follow it
  (\<open>Some e\<close>: it raised \<open>e\<close>). Their results depend on the network and on data files, so
  each is a function of the environment that returns a value or raises; every theorem
  below holds for all of them. The client functions turn a failure of the language model
  into \<open>None\<close> themselves; what they can still raise is an exception from outside their
  own \<open>try\<close> blocks, such as \<open>MemoryError\<close>, and each caller has an \<open>except\<close> clause
  for it.
\<close>

record env =
  model_file :: "(real list \<Rightarrow> exn + real) option"
  scaler_file :: "(real list \<Rightarrow> exn + real list) option"
  names_file :: "pystr list option"
  unicode_lower :: "pystr \<Rightarrow> pystr"
  generate_xai_reasons_with_gemini ::
    "int \<Rightarrow> int \<Rightarrow> real \<Rightarrow> bool \<Rightarrow> int \<Rightarrow> exn + pystr list option"
  eligibility_score_from_full_context ::
    "pystr \<Rightarrow> int \<Rightarrow> real \<Rightarrow> bool \<Rightarrow> exn + (int \<times> pystr list) option"
  check_blood_donation_eligible :: "pystr \<Rightarrow> exn + (bool \<times> pystr option) option"
  generate_health_flags_with_gemini :: "pystr \<Rightarrow> exn + pystr list option"
  ensure_nltk :: "exn option"
  nltk_lemmas :: "pystr \<Rightarrow> exn + pystr list"

section \<open>train_model.py and train_from_csv.py: the rule-based score\<close>

text \<open>\<open>rule_based_score\<close> of train_model.py.\<close>

definition rule_based_score :: "int \<Rightarrow> real \<Rightarrow> bool \<Rightarrow> int \<Rightarrow> exn + real" where
  "rule_based_score days_since distance_km is_available health_flag_count =
     (let min_days = 90;
          score = 50;
          score = (if days_since \<ge> min_days then score + 25
                   else if days_since \<ge> 60 then score + 10
                   else score);
          score = (if is_available then score + 15 else score);
          score = (if distance_km \<le> 5 then score + 10
                   else if distance_km \<le> 15 then score + 5
                   else score)
      in if health_flag_count = 0 then Inr (np_clip (np_round (score + 5)) 0 100)
         else (case py_float (health_flag_count * 10) of
                 Inl e \<Rightarrow> Inl e
               | Inr penalty \<Rightarrow> Inr (np_clip (np_round (score - penalty)) 0 100)))"

text \<open>\<open>rule_based_score\<close> of train_from_csv.py, translated from that file on its own.\<close>

definition rule_based_score_csv :: "int \<Rightarrow> real \<Rightarrow> bool \<Rightarrow> int \<Rightarrow> exn + real" where
  "rule_based_score_csv days_since distance_km is_available health_flag_count =
     (let min_days = 90;
          score = 50;
          score = (if days_since \<ge> min_days then score + 25
                   else if days_since \<ge> 60 then score + 10
                   else score);
          score = (if is_available then score + 15 else score);
          score = (if distance_km \<le> 5 then score + 10
                   else if distance_km \<le> 15 then score + 5
                   else score)
      in if health_flag_count = 0 then Inr (np_clip (np_round (score + 5)) 0 100)
         else (case py_float (health_flag_count * 10) of
                 Inl e \<Rightarrow> Inl e
               | Inr penalty \<Rightarrow> Inr (np_clip (np_round (score - penalty)) 0 100)))"

section \<open>eligibility_service.py\<close>

text \<open>The module's globals \<open>_model\<close>, \<open>_scaler\<close> and \<open>_feature_names\<close>.\<close>

record svc_state =
  g_model :: "(real list \<Rightarrow> exn + real) option"
  g_scaler :: "(real list \<Rightarrow> exn + real list) option"
  g_feature_names :: "pystr list option"

definition initial_state :: svc_state where
  "initial_state = \<lparr>g_model = None, g_scaler = None, g_feature_names = None\<rparr>"

text \<open>
  \<open>_load_model\<close>: nothing to do once \<open>_model\<close> is set; else the model file must be
  there, and the three artifacts are loaded in turn, each assigned as soon as it is
  loaded. Loading a file that is not there raises \<open>FileNotFoundError\<close> as well.
\<close>

definition load_model :: "svc_state \<Rightarrow> env \<Rightarrow> (exn + unit) \<times> svc_state" where
  "load_model st ev =
     (if g_model st \<noteq> None then (Inr (), st)
      else (case model_file ev of
              None \<Rightarrow> (Inl FileNotFoundError, st)
            | Some m \<Rightarrow>
                (let st1 = st\<lparr>g_model := Some m\<rparr>
                 in (case scaler_file ev of
                       None \<Rightarrow> (Inl FileNotFoundError, st1)
                     | Some sc \<Rightarrow>
                         (let st2 = st1\<lparr>g_scaler := Some sc\<rparr>
                          in (case names_file ev of
                                None \<Rightarrow> (Inl FileNotFoundError, st2)
                              | Some ns \<Rightarrow> (Inr (), st2\<lparr>g_feature_names := Some ns\<rparr>)))))))"

text \<open>
  The argument \<open>health_flags\<close> is annotated \<open>list\<close>, and the code also provides for a
  tuple, a count and \<open>None\<close>; the flags themselves are strings.
\<close>

datatype health_flags_arg =
    FlagList "pystr list"
  | FlagTuple "pystr list"
  | FlagCount int
  | FlagNone

text \<open>
  \<open>len(health_flags) if isinstance(health_flags, list) else int(health_flags or 0)\<close>;
  \<open>int\<close> of a non-empty tuple raises \<open>TypeError\<close>.
\<close>

definition health_count :: "health_flags_arg \<Rightarrow> exn + int" where
  "health_count health_flags =
     (case health_flags of
        FlagList xs \<Rightarrow> Inr (int (length xs))
      | FlagTuple xs \<Rightarrow> (if xs = [] then Inr 0 else Inl TypeError)
      | FlagCount n \<Rightarrow> Inr n
      | FlagNone \<Rightarrow> Inr 0)"

text \<open>\<open>_build_features\<close>: the row of the feature matrix.\<close>

definition build_features ::
  "int \<Rightarrow> real \<Rightarrow> bool \<Rightarrow> health_flags_arg \<Rightarrow> exn + real list" where
  "build_features days_since_last_donation distance_km is_available_now health_flags =
     (case health_count health_flags of
        Inl e \<Rightarrow> Inl e
      | Inr hc \<Rightarrow>
          (case py_float days_since_last_donation of
             Inl e \<Rightarrow> Inl e
           | Inr x0 \<Rightarrow>
               (case py_float hc of
                  Inl e \<Rightarrow> Inl e
                | Inr x3 \<Rightarrow>
                    Inr [x0, distance_km, (if is_available_now then 1 else 0), x3])))"

text \<open>
  \<open>list(health_flags) if isinstance(health_flags, (list, tuple)) else []\<close>.
\<close>

definition flags_list_of :: "health_flags_arg \<Rightarrow> pystr list" where
  "flags_list_of health_flags =
     (case health_flags of FlagList xs \<Rightarrow> xs | FlagTuple xs \<Rightarrow> xs | FlagCount n \<Rightarrow> [] | FlagNone \<Rightarrow> [])"

text \<open>
  Lines 73 to 87 of \<open>compute_score_and_reasons\<close>: the reasons of the language model,
  kept when the list is not empty; an exception anywhere in the block leaves the list
  empty.
\<close>

definition gemini_reasons ::
  "env \<Rightarrow> real \<Rightarrow> int \<Rightarrow> real \<Rightarrow> bool \<Rightarrow> health_flags_arg \<Rightarrow> pystr list" where
  "gemini_reasons ev score days_since_last_donation distance_km is_available_now health_flags =
     (case health_count health_flags of
        Inl e \<Rightarrow> []
      | Inr hc \<Rightarrow>
          (case generate_xai_reasons_with_gemini ev (py_int score) days_since_last_donation
                  distance_km is_available_now hc of
             Inl e \<Rightarrow> []
           | Inr None \<Rightarrow> []
           | Inr (Some rs) \<Rightarrow> (if rs \<noteq> [] then rs else [])))"

text \<open>Lines 89 to 105: the rule-based reasons, used when the list is still empty.\<close>

definition rule_based_reasons ::
  "pystr list \<Rightarrow> int \<Rightarrow> real \<Rightarrow> bool \<Rightarrow> real \<Rightarrow> pystr list" where
  "rule_based_reasons flags_list days_since_last_donation distance_km is_available_now score =
     (if S ''serious_condition'' \<in> set flags_list
      then [S ''Serious health condition (e.g. cancer) '' @ [8211]
              @ S '' not eligible for donation'']
      else
        (if days_since_last_donation \<ge> 90 then [S ''Eligible by donation gap (90+ days)'']
         else if days_since_last_donation \<ge> 60
           then [S ''Donation gap moderate (60'' @ [8211] @ S ''90 days)'']
         else [S ''Recently donated '' @ [8211] @ S '' check eligibility''])
        @ (if distance_km \<le> 5 then [S ''Proximity match '' @ [8211] @ S '' within 5 km'']
           else if distance_km \<le> 15 then [S ''Within 15 km'']
           else [])
        @ (if is_available_now then [S ''Marked available now''] else [])
        @ (if score \<ge> 80 then [S ''High suitability score''] else []))"

text \<open>
  \<open>compute_score_and_reasons\<close>. A scaler still unset after \<open>_load_model\<close> returned
  (an earlier call loaded the model and failed on the scaler) makes
  \<open>_scaler.transform\<close> raise \<open>AttributeError\<close>. Nothing catches what
  \<open>_scaler.transform\<close> and \<open>_model.predict\<close> raise.
\<close>

definition compute_score_and_reasons ::
  "svc_state \<Rightarrow> env \<Rightarrow> int \<Rightarrow> real \<Rightarrow> bool \<Rightarrow> health_flags_arg
     \<Rightarrow> (exn + int \<times> pystr list) \<times> svc_state" where
  "compute_score_and_reasons st ev days_since_last_donation distance_km is_available_now
       health_flags =
     (case load_model st ev of
        (Inl e, st') \<Rightarrow> (Inl e, st')
      | (Inr u, st') \<Rightarrow>
          (case build_features days_since_last_donation distance_km is_available_now
                  health_flags of
             Inl e \<Rightarrow> (Inl e, st')
           | Inr x \<Rightarrow>
               (case g_scaler st' of
                  None \<Rightarrow> (Inl AttributeError, st')
                | Some scaler \<Rightarrow>
                    (case g_model st' of
                       None \<Rightarrow> (Inl AttributeError, st')
                     | Some model \<Rightarrow>
                         (case scaler x of
                            Inl e \<Rightarrow> (Inl e, st')
                          | Inr x_scaled \<Rightarrow>
                              (case model x_scaled of
                                 Inl e \<Rightarrow> (Inl e, st')
                               | Inr prediction \<Rightarrow>
                                   (let score = np_clip (np_round prediction) 0 100;
                                        flags_list = flags_list_of health_flags;
                                        score = (if S ''serious_condition'' \<in> set flags_list
                                                 then min score 15 else score);
                                        reasons = gemini_reasons ev score
                                                    days_since_last_donation distance_km
                                                    is_available_now health_flags;
                                        reasons = (if reasons = []
                                                   then rule_based_reasons flags_list
                                                          days_since_last_donation
                                                          distance_km is_available_now score
                                                   else reasons)
                                    in (Inr (py_int score, reasons), st'))))))))"

section \<open>nlp_health.py\<close>

text \<open>\<open>HEALTH_TERMS\<close>: a dictionary, in its insertion order.\<close>

definition HEALTH_TERMS :: "(pystr \<times> pystr list) list" where
  "HEALTH_TERMS =
     [(S ''recent_illness'', map S
         [''ill'', ''illness'', ''sick'', ''sickness'', ''fever'', ''cold'', ''cough'',
          ''infection'', ''infect'', ''flu'', ''unwell'', ''recently'', ''virus'',
          ''feverish'', ''running nose'', ''sore throat'', ''cold'', ''weak'', ''unwell'']),
      (S ''diabetes'', map S
         [''diabetes'', ''diabetic'', ''sugar'', ''glucose'', ''blood sugar'',
          ''hyperglycemia'', ''hypoglycemia'', ''insulin'', ''prediabetic'']),
      (S ''anemia'', map S
         [''anemia'', ''anaemia'', ''haemoglobin'', ''hemoglobin'', ''hb'', ''low iron'',
          ''iron'', ''deficient'', ''thalassemia'']),
      (S ''bp'', map S
         [''blood pressure'', ''hypertension'', ''hypertensive'', ''hypotension'', ''bp'',
          ''high bp'', ''low bp'', ''pressure'']),
      (S ''medication'', map S
         [''medication'', ''medicine'', ''medicines'', ''drug'', ''drugs'', ''antibiotic'',
          ''antibiotics'', ''treatment'', ''prescription'', ''taking'', ''on drugs'',
          ''tablet'', ''injection'']),
      (S ''serious_condition'', map S
         [''cancer'', ''chemotherapy'', ''hiv'', ''aids'', ''hepatitis'', ''heart disease'',
          ''stroke'', ''major surgery'', ''leukemia'', ''lymphoma'', ''tumor'',
          ''malignant'', ''oncology''])]"

text \<open>\<open>_normalize_word\<close>.\<close>

definition normalize_word :: "env \<Rightarrow> pystr \<Rightarrow> pystr" where
  "normalize_word ev s = py_lower (unicode_lower ev) (py_strip (re_sub_ws s))"

text \<open>
  The characters of \<open>string.punctuation\<close>: the ASCII code points 33 to 47, 58 to 64,
  91 to 96 and 123 to 126.
\<close>

definition py_ispunct :: "nat \<Rightarrow> bool" where
  "py_ispunct c \<longleftrightarrow>
     (33 \<le> c \<and> c \<le> 47) \<or> (58 \<le> c \<and> c \<le> 64) \<or> (91 \<le> c \<and> c \<le> 96)
     \<or> (123 \<le> c \<and> c \<le> 126)"

text \<open>
  \<open>_tokenize_and_lemmatize\<close>: the text is normalised, an empty one gives no token, the
  punctuation becomes spaces, and the toolkit produces the set of lemmas and words.
\<close>

definition tokenize_and_lemmatize :: "env \<Rightarrow> pystr \<Rightarrow> exn + pystr list" where
  "tokenize_and_lemmatize ev text =
     (case ensure_nltk ev of
        Some e \<Rightarrow> Inl e
      | None \<Rightarrow>
          (let text = normalize_word ev text
           in if text = [] then Inr []
              else nltk_lemmas ev (map (\<lambda>c. if py_ispunct c then 32 else c) text)))"

text \<open>
  The phrases of two and of three consecutive words, in the order of the two loops of
  \<open>_normalize_health_to_flags_nltk\<close>.
\<close>

definition word_phrases :: "pystr list \<Rightarrow> pystr list" where
  "word_phrases words =
     concat (map (\<lambda>i. concat (map (\<lambda>n. if i + n \<le> length words
                                        then [py_join [32] (take n (drop i words))]
                                        else [])
                                [2, 3]))
               [0..<length words])"

text \<open>
  The inner loop over the terms of one flag: true as soon as a normalised term is a token
  or a phrase, or occurs in the text (the \<open>break\<close>).
\<close>

fun term_matches :: "env \<Rightarrow> pystr list \<Rightarrow> pystr \<Rightarrow> pystr list \<Rightarrow> bool" where
  "term_matches ev tokens text [] = False"
| "term_matches ev tokens text (term # terms) =
     (let t_norm = normalize_word ev term
      in if t_norm \<in> set tokens \<or> str_contains text t_norm then True
         else term_matches ev tokens text terms)"

text \<open>The outer loop over the items of the dictionary, appending the flags that match.\<close>

fun collect_flags ::
  "env \<Rightarrow> pystr list \<Rightarrow> pystr \<Rightarrow> (pystr \<times> pystr list) list \<Rightarrow> pystr list" where
  "collect_flags ev tokens text [] = []"
| "collect_flags ev tokens text ((flag, terms) # items) =
     (if term_matches ev tokens text terms then flag # collect_flags ev tokens text items
      else collect_flags ev tokens text items)"

text \<open>\<open>_normalize_health_to_flags_nltk\<close>.\<close>

definition normalize_health_to_flags_nltk :: "env \<Rightarrow> pystr \<Rightarrow> exn + pystr list" where
  "normalize_health_to_flags_nltk ev health_summary =
     (let text = normalize_word ev health_summary
      in if text = [] then Inr []
         else (case tokenize_and_lemmatize ev health_summary of
                 Inl e \<Rightarrow> Inl e
               | Inr lemmas \<Rightarrow>
                   (let words = py_split text;
                        tokens_and_phrases = lemmas @ word_phrases words;
                        flags = collect_flags ev tokens_and_phrases text HEALTH_TERMS
                    in Inr (dict_fromkeys flags))))"

text \<open>
  \<open>normalize_health_to_flags\<close>. The argument is any Python value; an exception of the
  language-model client is swallowed and the keyword extractor takes over.
\<close>

definition normalize_health_to_flags :: "env \<Rightarrow> pyval \<Rightarrow> exn + pystr list" where
  "normalize_health_to_flags ev health_summary =
     (if \<not> py_truthy health_summary \<or> \<not> isinstance_str health_summary then Inr []
      else (let text = normalize_word ev (str_value health_summary)
            in if text = [] then Inr []
               else (case generate_health_flags_with_gemini ev (str_value health_summary) of
                       Inr (Some gemini_flags) \<Rightarrow> Inr gemini_flags
                     | Inr None \<Rightarrow> normalize_health_to_flags_nltk ev (str_value health_summary)
                     | Inl e \<Rightarrow> normalize_health_to_flags_nltk ev (str_value health_summary))))"

section \<open>main.py: the endpoints\<close>

record PredictEligibilityBody =
  daysSinceLastDonation :: int
  distanceKm :: real
  isAvailableNow :: bool
  healthFlags :: "pystr list"
  healthSummary :: "pystr option"

text \<open>
  What a handler produces: a JSON body, sent with status 200, or an \<open>HTTPException\<close>
  with its status code; the detail \<open>str(e)\<close> is kept as the exception itself.
\<close>

datatype 'a response =
    Response 'a
  | HTTPException nat exn

fun status_code :: "'a response \<Rightarrow> nat" where
  "status_code (Response body) = 200"
| "status_code (HTTPException code e) = code"

text \<open>
  The \<open>try\<close> block of \<open>predict_eligibility\<close>: with a health summary that is not blank
  the language model scores the request from the full context and its result, when
  there is one, is returned; otherwise the model of eligibility_service.py scores it.
\<close>

definition predict_eligibility_try ::
  "svc_state \<Rightarrow> env \<Rightarrow> PredictEligibilityBody \<Rightarrow> (exn + int \<times> pystr list) \<times> svc_state" where
  "predict_eligibility_try st ev body =
     (let health_summary = py_strip (case healthSummary body of None \<Rightarrow> [] | Some s \<Rightarrow> s)
      in (case (if health_summary \<noteq> []
                then eligibility_score_from_full_context ev health_summary
                       (daysSinceLastDonation body) (distanceKm body) (isAvailableNow body)
                else Inr None) of
            Inl e \<Rightarrow> (Inl e, st)
          | Inr (Some result) \<Rightarrow> (Inr result, st)
          | Inr None \<Rightarrow>
              compute_score_and_reasons st ev (daysSinceLastDonation body) (distanceKm body)
                (isAvailableNow body) (FlagList (healthFlags body))))"

text \<open>\<open>predict_eligibility\<close>: the \<open>try\<close> block under its two \<open>except\<close> clauses.\<close>

definition predict_eligibility ::
  "svc_state \<Rightarrow> env \<Rightarrow> PredictEligibilityBody \<Rightarrow> (int \<times> pystr list) response \<times> svc_state" where
  "predict_eligibility st ev body =
     (case predict_eligibility_try st ev body of
        (Inl e, st') \<Rightarrow>
          (if e = FileNotFoundError then (HTTPException 503 e, st')
           else (HTTPException 500 e, st'))
      | (Inr (score, reasons), st') \<Rightarrow> (Response (score, reasons), st'))"

text \<open>
  The body of \<open>check_eligibility_from_health\<close>: \<open>{"eligible": ...}\<close> alone, or with a
  \<open>"reason"\<close> (\<open>None\<close> is JSON's null).
\<close>

datatype eligible_body =
    Eligible bool
  | EligibleReason bool "pystr option"

definition check_eligibility_from_health :: "env \<Rightarrow> pystr \<Rightarrow> eligible_body response" where
  "check_eligibility_from_health ev text =
     (case check_blood_donation_eligible ev text of
        Inl e \<Rightarrow> Response (EligibleReason True None)
      | Inr None \<Rightarrow> Response (Eligible True)
      | Inr (Some (eligible, reason)) \<Rightarrow> Response (EligibleReason eligible reason))"

text \<open>\<open>normalize_health\<close>; \<open>body.text or ""\<close> is the text itself.\<close>

definition normalize_health :: "env \<Rightarrow> pystr \<Rightarrow> pystr list response" where
  "normalize_health ev text =
     (case normalize_health_to_flags ev (PyStr text) of
        Inl e \<Rightarrow> HTTPException 500 e
      | Inr flags \<Rightarrow> Response flags)"

section \<open>Concrete environments for the examples\<close>

text \<open>\<open>FEATURE_NAMES\<close> of the training scripts, the content of the names artifact.\<close>

definition FEATURE_NAMES :: "pystr list" where
  "FEATURE_NAMES =
     [S ''days_since_last_donation'', S ''distance_km'', S ''is_available_now'',
      S ''health_flag_count'']"

text \<open>
  A part of the Unicode lower-casing: the capitals of Latin-1 and the Kelvin sign U+212A,
  which becomes the letter k.
\<close>

definition example_unicode_lower :: "pystr \<Rightarrow> pystr" where
  "example_unicode_lower s =
     map (\<lambda>c. if (65 \<le> c \<and> c \<le> 90) \<or> (192 \<le> c \<and> c \<le> 222 \<and> c \<noteq> 215) then c + 32
              else if c = 8490 then 107
              else c) s"

text \<open>
  An environment with the three artifacts in place (a regressor that predicts
  \<open>50 + days / 4\<close> on an identity scaler), no API key for the language model (every
  client function returns \<open>None\<close>) and a toolkit that splits the text at blanks.
\<close>

definition example_env :: env where
  "example_env =
     \<lparr>model_file = Some (\<lambda>x. Inr (50 + x ! 0 / 4)),
      scaler_file = Some (\<lambda>x. Inr x),
      names_file = Some FEATURE_NAMES,
      unicode_lower = example_unicode_lower,
      generate_xai_reasons_with_gemini = (\<lambda>score days distance available hc. Inr None),
      eligibility_score_from_full_context = (\<lambda>summary days distance available. Inr None),
      check_blood_donation_eligible = (\<lambda>summary. Inr None),
      generate_health_flags_with_gemini = (\<lambda>summary. Inr None),
      ensure_nltk = None,
      nltk_lemmas = (\<lambda>text. Inr (py_split text))\<rparr>"

text \<open>The same with a language model that answers.\<close>

definition example_env_llm :: env where
  "example_env_llm =
     example_env
       \<lparr>generate_xai_reasons_with_gemini :=
          (\<lambda>score days distance available hc. Inr (Some [S ''Donor is nearby.''])),
        eligibility_score_from_full_context :=
          (\<lambda>summary days distance available. Inr (Some (42, [S ''Scored from the summary.'']))),
        check_blood_donation_eligible :=
          (\<lambda>summary. Inr (Some (False, Some (S ''Recent illness.'')))),
        generate_health_flags_with_gemini := (\<lambda>summary. Inr (Some [S ''diabetes'']))\<rparr>"

text \<open>
  An environment where everything outside the service fails: no artifact on disk, every
  client function and the toolkit's setup raise.
\<close>

definition example_env_failing :: env where
  "example_env_failing =
     \<lparr>model_file = None,
      scaler_file = None,
      names_file = None,
      unicode_lower = example_unicode_lower,
      generate_xai_reasons_with_gemini =
        (\<lambda>score days distance available hc. Inl (OtherError ''MemoryError'')),
      eligibility_score_from_full_context =
        (\<lambda>summary days distance available. Inl (OtherError ''MemoryError'')),
      check_blood_donation_eligible = (\<lambda>summary. Inl (OtherError ''MemoryError'')),
      generate_health_flags_with_gemini = (\<lambda>summary. Inl (OtherError ''MemoryError'')),
      ensure_nltk = Some (OtherError ''LookupError''),
      nltk_lemmas = (\<lambda>text. Inl (OtherError ''LookupError''))\<rparr>"

text \<open>Two requests to /predict-eligibility, without and with a health summary.\<close>

definition example_body :: PredictEligibilityBody where
  "example_body =
     \<lparr>daysSinceLastDonation = 120, distanceKm = 2, isAvailableNow = True,
      healthFlags = [], healthSummary = None\<rparr>"

definition example_body_summary :: PredictEligibilityBody where
  "example_body_summary = example_body\<lparr>healthSummary := Some (S '' had a fever last week '')\<rparr>"

section \<open>Rounding and clipping\<close>

lemma np_round_floor_le: "of_int \<lfloor>x\<rfloor> \<le> np_round x"
  by (simp add: np_round_def Let_def)

lemma np_round_le_floor_Suc: "np_round x \<le> of_int (\<lfloor>x\<rfloor> + 1)"
  by (simp add: np_round_def Let_def)

lemma np_round_mono:
  assumes "x \<le> y"
  shows "np_round x \<le> np_round y"
proof (cases "\<lfloor>x\<rfloor> = \<lfloor>y\<rfloor>")
  case True
  with assms have "x - of_int \<lfloor>x\<rfloor> \<le> y - of_int \<lfloor>y\<rfloor>" by simp
  with True show ?thesis
    by (auto simp: np_round_def Let_def)
next
  case False
  moreover from assms have "\<lfloor>x\<rfloor> \<le> \<lfloor>y\<rfloor>" by (rule floor_mono)
  ultimately have "\<lfloor>x\<rfloor> + 1 \<le> \<lfloor>y\<rfloor>" by simp
  then have "(of_int (\<lfloor>x\<rfloor> + 1) :: real) \<le> of_int \<lfloor>y\<rfloor>"
    by (simp only: of_int_le_iff)
  with np_round_le_floor_Suc [of x] np_round_floor_le [of y] show ?thesis
    by linarith
qed

lemma np_round_of_int: "np_round (of_int n) = of_int n"
  by (simp add: np_round_def Let_def)

lemma np_round_numeral: "np_round (numeral k) = numeral k"
  using np_round_of_int [of "numeral k"] by simp

lemma np_clip_mono: "x \<le> y \<Longrightarrow> np_clip x lo hi \<le> np_clip y lo hi"
  by (auto simp: np_clip_def min_def max_def)

section \<open>Evaluation of the examples\<close>

lemmas example_eval =
  compute_score_and_reasons_def load_model_def initial_state_def example_env_def
  example_env_llm_def build_features_def health_count_def py_float_def py_float_value_def
  float_overflow_bound_def flags_list_of_def gemini_reasons_def rule_based_reasons_def
  np_clip_def np_round_numeral py_int_def Let_def

lemmas string_eval =
  S_def normalize_word_def py_strip_def py_lower_def ascii_lower_cp_def py_isspace_def
  py_ispunct_def py_split_def example_unicode_lower_def

section \<open>The rule-based score\<close>

lemma rule_based_score_zero_mono:
  assumes "d1 \<le> d2"
  shows "\<exists>s1 s2. rule_based_score d1 x a 0 = Inr s1 \<and> rule_based_score d2 x a 0 = Inr s2
           \<and> s1 \<le> s2"
  using assms
  by (simp add: rule_based_score_def Let_def np_round_numeral np_clip_def)

lemma rule_based_score_penalty_mono:
  assumes "d1 \<le> d2" and "h \<noteq> 0" and "py_float (h * 10) = Inr p"
  shows "\<exists>s1 s2. rule_based_score d1 x a h = Inr s1 \<and> rule_based_score d2 x a h = Inr s2
           \<and> s1 \<le> s2"
  using assms
  by (auto simp: rule_based_score_def Let_def intro!: np_clip_mono np_round_mono)

text \<open>
  Claim C5. The rule-based score is monotone non-decreasing in \<open>days_since\<close>: with the
  distance, the availability and the health-flag count fixed and \<open>d1 \<le> d2\<close>, both
  calls return and the score at \<open>d1\<close> is at most the score at \<open>d2\<close>, or both raise
  the same error (the overflow of the penalty, which does not depend on the days). In
  particular the score at 90 days is at least the score at 89 days.
\<close>

theorem rule_based_score_mono_days:
  assumes "d1 \<le> d2"
  shows "(\<exists>s1 s2. rule_based_score d1 distance_km is_available health_flag_count = Inr s1
            \<and> rule_based_score d2 distance_km is_available health_flag_count = Inr s2
            \<and> s1 \<le> s2)
       \<or> (\<exists>e. rule_based_score d1 distance_km is_available health_flag_count = Inl e
            \<and> rule_based_score d2 distance_km is_available health_flag_count = Inl e)"
proof (cases "health_flag_count = 0")
  case True
  with rule_based_score_zero_mono [OF assms] show ?thesis by simp
next
  case False
  show ?thesis
  proof (cases "py_float (health_flag_count * 10)")
    case (Inl e)
    with False have "rule_based_score d1 distance_km is_available health_flag_count = Inl e"
      and "rule_based_score d2 distance_km is_available health_flag_count = Inl e"
      by (simp_all add: rule_based_score_def Let_def)
    then show ?thesis by simp
  next
    case (Inr p)
    from rule_based_score_penalty_mono [OF assms False Inr] show ?thesis by simp
  qed
qed

theorem rule_based_score_mono_days_witness:
  "(89::int) \<le> 90
   \<and> rule_based_score 89 10 True 0 = Inr 85
   \<and> rule_based_score 90 10 True 0 = Inr 100"
  using rule_based_score_mono_days [of 89 90 10 True 0]
  by (simp add: rule_based_score_def Let_def np_round_numeral np_clip_def)

text \<open>
  Claim C7. The two copies of the rule-based scoring function, the one of train_model.py
  and the one of train_from_csv.py, return equal results on every input.
\<close>

theorem rule_based_score_copies_equal:
  "rule_based_score_csv days_since distance_km is_available health_flag_count
   = rule_based_score days_since distance_km is_available health_flag_count"
  by (simp only: rule_based_score_csv_def rule_based_score_def)

section \<open>eligibility_service.py: score and reasons\<close>

lemma bitlen_eqI:
  assumes "2 ^ k \<le> m" and "m < 2 ^ Suc k"
  shows "bitlen m = int k + 1"
proof -
  from assms(1) have pos: "0 < m"
    by (smt (verit) zero_less_power)
  from bitlen_bounds [OF pos] have lo: "2 ^ nat (bitlen m - 1) \<le> m"
    and hi: "m < 2 ^ nat (bitlen m)" by simp_all
  from lo assms(2) have "(2::int) ^ nat (bitlen m - 1) < 2 ^ Suc k" by linarith
  then have a: "nat (bitlen m - 1) < Suc k"
    by (rule power_less_imp_less_exp [rotated]) simp
  from assms(1) hi have "(2::int) ^ k < 2 ^ nat (bitlen m)" by linarith
  then have b: "k < nat (bitlen m)"
    by (rule power_less_imp_less_exp [rotated]) simp
  from a b show ?thesis by linarith
qed

lemma py_float_value_exact:
  assumes "\<bar>n\<bar> \<le> 2 ^ 53"
  shows "py_float_value n = of_int n"
proof (cases "\<bar>n\<bar> < 2 ^ 53")
  case True
  then show ?thesis by (simp add: py_float_value_def)
next
  case False
  with assms have m: "\<bar>n\<bar> = 2 ^ 53" by simp
  have "bitlen (2 ^ 53) = 54"
    using bitlen_eqI [of 53 "2 ^ 53"] by simp
  with m have "py_float_value n = of_int (sgn n * 2 ^ 53)"
    by (simp add: py_float_value_def Let_def)
  also from m have "sgn n * 2 ^ 53 = n"
    by (cases "0 \<le> n") simp_all
  finally show ?thesis .
qed

lemma py_float_value_tie:
  "py_float_value 9007199254740993 = 9007199254740992"
proof -
  have "bitlen 9007199254740993 = 54"
    using bitlen_eqI [of 53 9007199254740993] by simp
  then show ?thesis
    by (simp add: py_float_value_def Let_def)
qed

lemma np_round_int_valued: "\<exists>k. np_round x = of_int k"
  by (simp add: np_round_def Let_def)

lemma np_clip_of_int: "np_clip (of_int k) 0 100 = of_int (min (max k 0) 100)"
  by (simp add: np_clip_def min_def max_def)

lemma py_int_of_int: "py_int (of_int k) = k"
  by (simp add: py_int_def)

lemma model_score_int_valued:
  "\<exists>k. 0 \<le> k \<and> k \<le> 100 \<and> np_clip (np_round p) 0 100 = of_int k"
proof -
  obtain j where "np_round p = of_int j" using np_round_int_valued by blast
  then have "np_clip (np_round p) 0 100 = of_int (min (max j 0) 100)"
    by (simp add: np_clip_of_int)
  moreover have "0 \<le> min (max j 0) 100" "min (max j 0) 100 \<le> 100" by simp_all
  ultimately show ?thesis by blast
qed

lemma compute_score_and_reasons_InrE:
  assumes "fst (compute_score_and_reasons st ev d x a hf) = Inr (score, reasons)"
  obtains st' feats scaler model x_scaled prediction sc where
    "load_model st ev = (Inr (), st')"
    "build_features d x a hf = Inr feats"
    "g_scaler st' = Some scaler"
    "g_model st' = Some model"
    "scaler feats = Inr x_scaled"
    "model x_scaled = Inr prediction"
    "sc = (if S ''serious_condition'' \<in> set (flags_list_of hf)
           then min (np_clip (np_round prediction) 0 100) 15
           else np_clip (np_round prediction) 0 100)"
    "score = py_int sc"
    "reasons = (if gemini_reasons ev sc d x a hf = []
                then rule_based_reasons (flags_list_of hf) d x a sc
                else gemini_reasons ev sc d x a hf)"
  using assms
  by (auto simp: compute_score_and_reasons_def Let_def
           split: prod.splits sum.splits option.splits)

lemma capped_score_int_valued:
  assumes "sc = (if b then min (np_clip (np_round p) 0 100) 15 else np_clip (np_round p) 0 100)"
  shows "\<exists>k. 0 \<le> k \<and> k \<le> 100 \<and> (b \<longrightarrow> k \<le> 15) \<and> sc = of_int k"
proof -
  obtain k where k: "0 \<le> k" "k \<le> 100" "np_clip (np_round p) 0 100 = of_int k"
    using model_score_int_valued by blast
  show ?thesis
  proof (cases b)
    case True
    with assms k have "sc = of_int (min k 15)" by (simp add: min_def)
    moreover from k have "0 \<le> min k 15" "min k 15 \<le> 100" "min k 15 \<le> 15" by simp_all
    ultimately show ?thesis by blast
  next
    case False
    with assms k show ?thesis by auto
  qed
qed

lemma rule_based_reasons_nonempty: "rule_based_reasons fl d x a sc \<noteq> []"
  by (simp add: rule_based_reasons_def)

lemma compute_score_and_reasons_returns:
  assumes "load_model st ev = (Inr (), st')" and "g_scaler st' = Some scaler"
    and "g_model st' = Some model"
    and "build_features d x a hf = Inr feats"
    and "scaler feats = Inr x_scaled" and "model x_scaled = Inr prediction"
  shows "\<exists>score reasons. compute_score_and_reasons st ev d x a hf = (Inr (score, reasons), st')"
  using assms
  by (simp add: compute_score_and_reasons_def Let_def)

lemma build_features_list:
  "build_features d x a (FlagList fl) =
     (if \<bar>d\<bar> < float_overflow_bound \<and> int (length fl) < float_overflow_bound
      then Inr [py_float_value d, x, (if a then 1 else 0), py_float_value (int (length fl))]
      else Inl OverflowError)"
  by (simp add: build_features_def health_count_def py_float_def)

text \<open>
  \<open>compute_score_and_reasons\<close> does not return a score on every input: it raises when
  the model file is missing and when the days do not convert to a float.
\<close>

theorem compute_score_and_reasons_raises:
  "fst (compute_score_and_reasons initial_state example_env_failing 120 2 True (FlagList []))
     = Inl FileNotFoundError
   \<and> fst (compute_score_and_reasons initial_state example_env (2 ^ 1024) 2 True (FlagList []))
     = Inl OverflowError"
  by (simp add: compute_score_and_reasons_def load_model_def initial_state_def
        example_env_failing_def example_env_def build_features_def health_count_def
        py_float_def float_overflow_bound_def)

text \<open>
  Claim C1, amended. For every input, a score returned by \<open>compute_score_and_reasons\<close>
  is an integer between 0 and 100. The function returns one exactly when the artifacts
  load, the features are built (the days and the number of flags convert to a float)
  and the scaler and the model return; in every other case it raises.
\<close>

theorem compute_score_and_reasons_score_range:
  "(fst (compute_score_and_reasons st ev d x a hf) = Inr (score, reasons)
      \<longrightarrow> 0 \<le> score \<and> score \<le> 100)
   \<and> (fst (compute_score_and_reasons st ev d x a hf) = Inr (score, reasons)
      \<longrightarrow> (\<exists>st1 scaler1 model1 feats1 xs1 p1.
             load_model st ev = (Inr (), st1) \<and> g_scaler st1 = Some scaler1
             \<and> g_model st1 = Some model1 \<and> build_features d x a hf = Inr feats1
             \<and> scaler1 feats1 = Inr xs1 \<and> model1 xs1 = Inr p1))
   \<and> (load_model st ev = (Inr (), st') \<and> g_scaler st' = Some scaler
        \<and> g_model st' = Some model \<and> build_features d x a hf = Inr feats
        \<and> scaler feats = Inr x_scaled \<and> model x_scaled = Inr prediction
      \<longrightarrow> (\<exists>s rs. compute_score_and_reasons st ev d x a hf = (Inr (s, rs), st')
             \<and> 0 \<le> s \<and> s \<le> 100))"
proof -
  have range: "0 \<le> s \<and> s \<le> 100"
    if "fst (compute_score_and_reasons st ev d x a hf) = Inr (s, rs)" for s rs
  proof -
    from that obtain p sc where
      sc: "sc = (if S ''serious_condition'' \<in> set (flags_list_of hf)
                 then min (np_clip (np_round p) 0 100) 15
                 else np_clip (np_round p) 0 100)"
      and s: "s = py_int sc"
      by (rule compute_score_and_reasons_InrE) blast
    from capped_score_int_valued [OF sc] obtain k where
      "0 \<le> k" "k \<le> 100" "sc = of_int k" by blast
    with s show ?thesis by (simp add: py_int_of_int)
  qed
  have only_if: "\<exists>st1 scaler1 model1 feats1 xs1 p1.
      load_model st ev = (Inr (), st1) \<and> g_scaler st1 = Some scaler1
      \<and> g_model st1 = Some model1 \<and> build_features d x a hf = Inr feats1
      \<and> scaler1 feats1 = Inr xs1 \<and> model1 xs1 = Inr p1"
    if "fst (compute_score_and_reasons st ev d x a hf) = Inr (score, reasons)"
    using that by (rule compute_score_and_reasons_InrE) blast
  have returns: "\<exists>s rs. compute_score_and_reasons st ev d x a hf = (Inr (s, rs), st')
      \<and> 0 \<le> s \<and> s \<le> 100"
    if "load_model st ev = (Inr (), st')" "g_scaler st' = Some scaler"
      "g_model st' = Some model" "build_features d x a hf = Inr feats"
      "scaler feats = Inr x_scaled" "model x_scaled = Inr prediction"
  proof -
    from compute_score_and_reasons_returns [OF that] obtain s rs where
      r: "compute_score_and_reasons st ev d x a hf = (Inr (s, rs), st')" by blast
    then have "fst (compute_score_and_reasons st ev d x a hf) = Inr (s, rs)" by simp
    from range [OF this] r show ?thesis by blast
  qed
  from range only_if returns show ?thesis by blast
qed

theorem compute_score_and_reasons_score_range_witness:
  "fst (compute_score_and_reasons initial_state example_env 120 2 True (FlagList []))
     = Inr (80, [S ''Eligible by donation gap (90+ days)'',
                 S ''Proximity match '' @ [8211] @ S '' within 5 km'',
                 S ''Marked available now'', S ''High suitability score''])
   \<and> load_model initial_state example_env
     = (Inr (), \<lparr>g_model = Some (\<lambda>x. Inr (50 + x ! 0 / 4)), g_scaler = Some (\<lambda>x. Inr x),
                 g_feature_names = Some FEATURE_NAMES\<rparr>)
   \<and> build_features 120 2 True (FlagList []) = Inr [120, 2, 1, 0]
   \<and> (0::int) \<le> 80 \<and> (80::int) \<le> 100"
proof -
  have l: "load_model initial_state example_env
     = (Inr (), \<lparr>g_model = Some (\<lambda>x. Inr (50 + x ! 0 / 4)), g_scaler = Some (\<lambda>x. Inr x),
                 g_feature_names = Some FEATURE_NAMES\<rparr>)"
    by (simp add: load_model_def initial_state_def example_env_def)
  have b: "build_features 120 2 True (FlagList []) = Inr [120, 2, 1, 0]"
    by (simp add: example_eval)
  have c: "fst (compute_score_and_reasons initial_state example_env 120 2 True (FlagList []))
     = Inr (80, [S ''Eligible by donation gap (90+ days)'',
                 S ''Proximity match '' @ [8211] @ S '' within 5 km'',
                 S ''Marked available now'', S ''High suitability score''])"
    by (simp add: example_eval)
  from compute_score_and_reasons_score_range
    [where st = initial_state and ev = example_env and d = 120 and x = 2 and a = True
       and hf = "FlagList []" and score = 80
       and reasons = "[S ''Eligible by donation gap (90+ days)'',
                 S ''Proximity match '' @ [8211] @ S '' within 5 km'',
                 S ''Marked available now'', S ''High suitability score'']"
       and st' = "\<lparr>g_model = Some (\<lambda>x. Inr (50 + x ! 0 / 4)), g_scaler = Some (\<lambda>x. Inr x),
                 g_feature_names = Some FEATURE_NAMES\<rparr>"
       and scaler = "\<lambda>x. Inr x" and model = "\<lambda>x. Inr (50 + x ! 0 / 4)"
       and feats = "[120, 2, 1, 0]" and x_scaled = "[120, 2, 1, 0]" and prediction = 80]
    l b c
  show ?thesis by simp
qed

text \<open>
  Claim C2. When the list \<open>health_flags\<close> contains \<open>"serious_condition"\<close>, the score
  returned by \<open>compute_score_and_reasons\<close> is at most 15, whatever the model predicts
  and whatever the other inputs are.
\<close>

theorem serious_condition_caps_score:
  assumes "fst (compute_score_and_reasons st ev d x a (FlagList fl)) = Inr (score, reasons)"
    and "S ''serious_condition'' \<in> set fl"
  shows "score \<le> 15"
proof -
  from assms(1) obtain p sc where
    sc: "sc = (if S ''serious_condition'' \<in> set (flags_list_of (FlagList fl))
               then min (np_clip (np_round p) 0 100) 15
               else np_clip (np_round p) 0 100)"
    and s: "score = py_int sc"
    by (rule compute_score_and_reasons_InrE) blast
  from assms(2) have "S ''serious_condition'' \<in> set (flags_list_of (FlagList fl))"
    by (simp add: flags_list_of_def)
  with capped_score_int_valued [OF sc] obtain k where "k \<le> 15" "sc = of_int k" by blast
  with s show ?thesis by (simp add: py_int_of_int)
qed

theorem serious_condition_caps_score_witness:
  "fst (compute_score_and_reasons initial_state example_env 120 2 True
          (FlagList [S ''diabetes'', S ''serious_condition'']))
     = Inr (15, [S ''Serious health condition (e.g. cancer) '' @ [8211]
                   @ S '' not eligible for donation''])
   \<and> S ''serious_condition'' \<in> set [S ''diabetes'', S ''serious_condition'']
   \<and> (15::int) \<le> 15"
  using serious_condition_caps_score
    [of initial_state example_env 120 2 True "[S ''diabetes'', S ''serious_condition'']" 15
        "[S ''Serious health condition (e.g. cancer) '' @ [8211]
            @ S '' not eligible for donation'']"]
  by (simp add: example_eval)

text \<open>
  The feature builder produces no row when the days are too large for a float.
\<close>

theorem build_features_overflow:
  "build_features (2 ^ 1024) (5 / 2) True (FlagList []) = Inl OverflowError"
  by (simp add: build_features_def health_count_def py_float_def float_overflow_bound_def)

text \<open>
  Claim C8, amended. For every input whose days and number of flags convert to a float
  (their absolute value is below \<open>2 ^ 1024 - 2 ^ 970\<close>), the feature builder produces
  the row of four numbers, in this order: \<open>float(days)\<close>, the distance in km, 1.0 or
  0.0 for the availability, and \<open>float\<close> of the length of the list of flags; on every
  other input it raises \<open>OverflowError\<close>. \<open>float(n)\<close> is the double nearest to \<open>n\<close>,
  which is \<open>n\<close> itself up to \<open>2 ^ 53\<close>.
\<close>

theorem build_features_vector:
  "build_features days_since_last_donation distance_km is_available_now (FlagList flags) =
     (if \<bar>days_since_last_donation\<bar> < float_overflow_bound
         \<and> int (length flags) < float_overflow_bound
      then Inr [py_float_value days_since_last_donation, distance_km,
                (if is_available_now then 1 else 0), py_float_value (int (length flags))]
      else Inl OverflowError)
   \<and> (\<bar>days_since_last_donation\<bar> \<le> 2 ^ 53
        \<longrightarrow> py_float_value days_since_last_donation = of_int days_since_last_donation)
   \<and> (int (length flags) \<le> 2 ^ 53
        \<longrightarrow> py_float_value (int (length flags)) = real (length flags))"
proof -
  have "py_float_value (int (length flags)) = real (length flags)"
    if "int (length flags) \<le> 2 ^ 53"
    using py_float_value_exact [of "int (length flags)"] that by simp
  then show ?thesis
    by (simp add: build_features_list py_float_value_exact)
qed

theorem build_features_vector_witness:
  "build_features 120 (5 / 2) True (FlagList [S ''bp'', S ''anemia'']) = Inr [120, 5 / 2, 1, 2]
   \<and> build_features 120 (5 / 2) False (FlagList []) = Inr [120, 5 / 2, 0, 0]
   \<and> build_features (2 ^ 53 + 1) (5 / 2) True (FlagList []) = Inr [2 ^ 53, 5 / 2, 1, 0]"
  using build_features_vector [of 120 "5 / 2" True "[S ''bp'', S ''anemia'']"]
    build_features_vector [of 120 "5 / 2" False "[]"]
    build_features_vector [of "2 ^ 53 + 1" "5 / 2" True "[]"]
  by (simp add: float_overflow_bound_def py_float_value_tie)

text \<open>
  Claim C9. The list of reasons returned by \<open>compute_score_and_reasons\<close> is never
  empty: the rule-based reasons always hold at least one, and the list of the language
  model stands in their place only when it is not empty.
\<close>

theorem compute_score_and_reasons_reasons_nonempty:
  assumes "fst (compute_score_and_reasons st ev d x a hf) = Inr (score, reasons)"
  shows "reasons \<noteq> []
       \<and> rule_based_reasons (flags_list_of hf) d x a (of_int score) \<noteq> []
       \<and> (reasons = rule_based_reasons (flags_list_of hf) d x a (of_int score)
          \<or> (gemini_reasons ev (of_int score) d x a hf \<noteq> []
              \<and> reasons = gemini_reasons ev (of_int score) d x a hf))"
proof -
  from assms obtain p sc where
    sc: "sc = (if S ''serious_condition'' \<in> set (flags_list_of hf)
               then min (np_clip (np_round p) 0 100) 15
               else np_clip (np_round p) 0 100)"
    and s: "score = py_int sc"
    and r: "reasons = (if gemini_reasons ev sc d x a hf = []
                       then rule_based_reasons (flags_list_of hf) d x a sc
                       else gemini_reasons ev sc d x a hf)"
    by (rule compute_score_and_reasons_InrE) blast
  from capped_score_int_valued [OF sc] obtain k where "sc = of_int k" by blast
  with s have "sc = of_int score" by (simp add: py_int_of_int)
  with r show ?thesis by (simp add: rule_based_reasons_nonempty)
qed

theorem compute_score_and_reasons_reasons_nonempty_witness:
  "fst (compute_score_and_reasons initial_state example_env 30 10 False (FlagList []))
     = Inr (58, [S ''Recently donated '' @ [8211] @ S '' check eligibility'',
                 S ''Within 15 km''])
   \<and> fst (compute_score_and_reasons initial_state example_env_llm 30 10 False (FlagList []))
     = Inr (58, [S ''Donor is nearby.''])"
  using compute_score_and_reasons_reasons_nonempty
    [of initial_state example_env 30 10 False "FlagList []" 58
        "[S ''Recently donated '' @ [8211] @ S '' check eligibility'', S ''Within 15 km'']"]
    compute_score_and_reasons_reasons_nonempty
    [of initial_state example_env_llm 30 10 False "FlagList []" 58 "[S ''Donor is nearby.'']"]
  by (simp add: example_eval np_round_def)

section \<open>nlp_health.py: flags from free text\<close>

lemma startswith_iff: "startswith s t \<longleftrightarrow> (\<exists>post. s = t @ post)"
  by (induction s t rule: startswith.induct) auto

lemma str_contains_iff: "str_contains s t \<longleftrightarrow> (\<exists>pre post. s = pre @ t @ post)"
proof (induction s)
  case Nil
  then show ?case by simp
next
  case (Cons c cs)
  show ?case
  proof
    assume "str_contains (c # cs) t"
    then consider "startswith (c # cs) t" | "str_contains cs t" by auto
    then show "\<exists>pre post. c # cs = pre @ t @ post"
    proof cases
      case 1
      then obtain post where "c # cs = [] @ t @ post" by (auto simp: startswith_iff)
      then show ?thesis by blast
    next
      case 2
      with Cons obtain pre post where "cs = pre @ t @ post" by blast
      then have "c # cs = (c # pre) @ t @ post" by simp
      then show ?thesis by blast
    qed
  next
    assume "\<exists>pre post. c # cs = pre @ t @ post"
    then obtain pre post where e: "c # cs = pre @ t @ post" by blast
    show "str_contains (c # cs) t"
    proof (cases pre)
      case Nil
      with e have "startswith (c # cs) t" by (auto simp: startswith_iff)
      then show ?thesis by simp
    next
      case (Cons p ps)
      with e have "cs = ps @ t @ post" by simp
      with Cons.IH have "str_contains cs t" by blast
      then show ?thesis by simp
    qed
  qed
qed

lemma term_matches_iff:
  "term_matches ev tokens text terms \<longleftrightarrow>
     (\<exists>term \<in> set terms. normalize_word ev term \<in> set tokens
        \<or> str_contains text (normalize_word ev term))"
  by (induction terms) (auto simp: Let_def)

lemma set_collect_flags:
  "set (collect_flags ev tokens text items) =
     {flag. \<exists>terms. (flag, terms) \<in> set items \<and> term_matches ev tokens text terms}"
  by (induction items) (auto split: if_splits)

lemma set_dict_fromkeys: "set (dict_fromkeys xs) = set xs"
  by (induction xs rule: dict_fromkeys.induct) auto

lemma re_sub_ws_all_space:
  "\<forall>c \<in> set s. py_isspace c \<Longrightarrow> re_sub_ws s = (if s = [] then [] else [32])"
proof (cases s)
  case Nil
  then show ?thesis by simp
next
  case (Cons c cs)
  assume "\<forall>c \<in> set s. py_isspace c"
  with Cons have c: "py_isspace c" and d: "dropWhile py_isspace cs = []" by simp_all
  from c have "re_sub_ws (c # cs) = 32 # re_sub_ws (dropWhile py_isspace cs)" by simp
  also have "\<dots> = [32]" by (simp only: d re_sub_ws.simps)
  finally show ?thesis using Cons by simp
qed

lemma py_isspace_32: "py_isspace 32"
  by (simp add: py_isspace_def)

lemma normalize_word_all_space:
  assumes "\<forall>c \<in> set s. py_isspace c"
  shows "normalize_word ev s = []"
  using re_sub_ws_all_space [OF assms]
  by (simp add: normalize_word_def py_strip_def py_lower_def py_isspace_32)

lemma health_terms_nonblank:
  "(flag, terms) \<in> set HEALTH_TERMS \<Longrightarrow> term \<in> set terms \<Longrightarrow> normalize_word ev term \<noteq> []"
  by (auto simp: HEALTH_TERMS_def S_def normalize_word_def py_strip_def py_lower_def
        ascii_lower_cp_def py_isspace_def)

text \<open>
  Claim C6. A keyword match implies the flag: for every flag of \<open>HEALTH_TERMS\<close>, every
  term listed for it and every health summary whose normalised text (whitespace
  collapsed, lower case as the interpreter computes it) contains the normalised term as
  a substring, the list returned by \<open>_normalize_health_to_flags_nltk\<close> holds that flag.
  The function returns unless the toolkit raises, and then that exception is the one it
  lets through.
\<close>

theorem keyword_match_implies_flag:
  assumes "(flag, terms) \<in> set HEALTH_TERMS" and "term \<in> set terms"
    and "\<exists>pre post. normalize_word ev health_summary = pre @ normalize_word ev term @ post"
  shows "case normalize_health_to_flags_nltk ev health_summary of
           Inr flags \<Rightarrow> flag \<in> set flags
         | Inl e \<Rightarrow> tokenize_and_lemmatize ev health_summary = Inl e"
proof -
  define nt where "nt = normalize_word ev health_summary"
  from assms(3) have sub: "str_contains nt (normalize_word ev term)"
    by (simp add: nt_def str_contains_iff)
  from assms(3) health_terms_nonblank [OF assms(1,2), of ev] have ne: "nt \<noteq> []"
    by (auto simp: nt_def)
  show ?thesis
  proof (cases "tokenize_and_lemmatize ev health_summary")
    case (Inl e)
    with ne show ?thesis
      by (simp add: normalize_health_to_flags_nltk_def nt_def Let_def)
  next
    case (Inr lems)
    define tokens where "tokens = lems @ word_phrases (py_split nt)"
    from sub assms(2) have "term_matches ev tokens nt terms"
      by (auto simp: term_matches_iff)
    with assms(1) have "flag \<in> set (collect_flags ev tokens nt HEALTH_TERMS)"
      by (auto simp: set_collect_flags)
    then have "flag \<in> set (dict_fromkeys (collect_flags ev tokens nt HEALTH_TERMS))"
      by (simp add: set_dict_fromkeys)
    with ne Inr show ?thesis
      by (simp add: normalize_health_to_flags_nltk_def nt_def tokens_def Let_def)
  qed
qed

theorem keyword_match_implies_flag_witness:
  "normalize_word example_env (S ''I have  Cancer'')
     = S ''i have '' @ normalize_word example_env (S ''cancer'') @ []
   \<and> (\<exists>flags. normalize_health_to_flags_nltk example_env (S ''I have  Cancer'') = Inr flags
         \<and> S ''serious_condition'' \<in> set flags)
   \<and> normalize_word example_env (S ''sic'' @ [8490])
     = [] @ normalize_word example_env (S ''sick'') @ []
   \<and> (\<exists>flags. normalize_health_to_flags_nltk example_env (S ''sic'' @ [8490]) = Inr flags
         \<and> S ''recent_illness'' \<in> set flags)"
proof -
  have m: "(S ''serious_condition'', map S
         [''cancer'', ''chemotherapy'', ''hiv'', ''aids'', ''hepatitis'', ''heart disease'',
          ''stroke'', ''major surgery'', ''leukemia'', ''lymphoma'', ''tumor'',
          ''malignant'', ''oncology'']) \<in> set HEALTH_TERMS"
    by (simp add: HEALTH_TERMS_def)
  have t: "S ''cancer'' \<in> set (map S
         [''cancer'', ''chemotherapy'', ''hiv'', ''aids'', ''hepatitis'', ''heart disease'',
          ''stroke'', ''major surgery'', ''leukemia'', ''lymphoma'', ''tumor'',
          ''malignant'', ''oncology''])"
    by simp
  have n: "normalize_word example_env (S ''I have  Cancer'')
      = S ''i have '' @ normalize_word example_env (S ''cancer'') @ []"
    by (simp add: example_env_def string_eval)
  then have e: "\<exists>pre post. normalize_word example_env (S ''I have  Cancer'')
      = pre @ normalize_word example_env (S ''cancer'') @ post"
    by blast
  have r: "\<exists>lems. tokenize_and_lemmatize example_env (S ''I have  Cancer'') = Inr lems"
    by (simp add: tokenize_and_lemmatize_def example_env_def string_eval)
  from keyword_match_implies_flag [OF m t e] r
  have a: "\<exists>flags. normalize_health_to_flags_nltk example_env (S ''I have  Cancer'') = Inr flags
         \<and> S ''serious_condition'' \<in> set flags"
    by (cases "normalize_health_to_flags_nltk example_env (S ''I have  Cancer'')") auto
  have m2: "(S ''recent_illness'', map S
         [''ill'', ''illness'', ''sick'', ''sickness'', ''fever'', ''cold'', ''cough'',
          ''infection'', ''infect'', ''flu'', ''unwell'', ''recently'', ''virus'',
          ''feverish'', ''running nose'', ''sore throat'', ''cold'', ''weak'', ''unwell''])
        \<in> set HEALTH_TERMS"
    by (simp add: HEALTH_TERMS_def)
  have t2: "S ''sick'' \<in> set (map S
         [''ill'', ''illness'', ''sick'', ''sickness'', ''fever'', ''cold'', ''cough'',
          ''infection'', ''infect'', ''flu'', ''unwell'', ''recently'', ''virus'',
          ''feverish'', ''running nose'', ''sore throat'', ''cold'', ''weak'', ''unwell''])"
    by simp
  have n2: "normalize_word example_env (S ''sic'' @ [8490])
      = [] @ normalize_word example_env (S ''sick'') @ []"
    by (simp add: example_env_def string_eval)
  then have e2: "\<exists>pre post. normalize_word example_env (S ''sic'' @ [8490])
      = pre @ normalize_word example_env (S ''sick'') @ post"
    by blast
  have r2: "\<exists>lems. tokenize_and_lemmatize example_env (S ''sic'' @ [8490]) = Inr lems"
    by (simp add: tokenize_and_lemmatize_def example_env_def string_eval)
  from keyword_match_implies_flag [OF m2 t2 e2] r2
  have b: "\<exists>flags. normalize_health_to_flags_nltk example_env (S ''sic'' @ [8490]) = Inr flags
         \<and> S ''recent_illness'' \<in> set flags"
    by (cases "normalize_health_to_flags_nltk example_env (S ''sic'' @ [8490])") auto
  from n a n2 b show ?thesis by blast
qed

text \<open>
  Claim C10. \<open>normalize_health_to_flags\<close> returns the empty list on every degenerate
  input: \<open>None\<close>, a value that is not a string, the empty string and a string of
  whitespace only. The result is the same in every environment, so neither the language
  model nor the keyword extractor is consulted.
\<close>

theorem normalize_health_to_flags_degenerate:
  "normalize_health_to_flags ev PyNone = Inr []
   \<and> (\<not> isinstance_str v \<longrightarrow> normalize_health_to_flags ev v = Inr [])
   \<and> normalize_health_to_flags ev (PyStr []) = Inr []
   \<and> ((\<forall>c \<in> set s. py_isspace c) \<longrightarrow> normalize_health_to_flags ev (PyStr s) = Inr [])"
  by (simp add: normalize_health_to_flags_def normalize_word_all_space)

theorem normalize_health_to_flags_degenerate_witness:
  "normalize_health_to_flags example_env_llm PyNone = Inr []
   \<and> normalize_health_to_flags example_env_llm (PyInt 7) = Inr []
   \<and> normalize_health_to_flags example_env_llm (PyStr []) = Inr []
   \<and> normalize_health_to_flags example_env_llm (PyStr [32, 9, 10, 160, 8195]) = Inr []
   \<and> normalize_health_to_flags example_env_failing (PyStr [32, 9, 10, 160, 8195]) = Inr []
   \<and> normalize_health_to_flags example_env_llm (PyStr (S ''fine'')) = Inr [S ''diabetes'']
   \<and> normalize_health_to_flags example_env_failing (PyStr (S ''fine''))
       = Inl (OtherError ''LookupError'')"
proof -
  have sp: "\<forall>c \<in> set [32, 9, 10, 160, 8195]. py_isspace c"
    by (simp add: py_isspace_def)
  have c1: "normalize_health_to_flags example_env_llm (PyStr (S ''fine'')) = Inr [S ''diabetes'']"
    by (simp add: normalize_health_to_flags_def example_env_llm_def example_env_def string_eval)
  have c2: "normalize_health_to_flags example_env_failing (PyStr (S ''fine''))
       = Inl (OtherError ''LookupError'')"
    by (simp add: normalize_health_to_flags_def normalize_health_to_flags_nltk_def
          tokenize_and_lemmatize_def example_env_failing_def string_eval)
  from normalize_health_to_flags_degenerate [of example_env_llm "PyInt 7" "[32, 9, 10, 160, 8195]"]
    normalize_health_to_flags_degenerate [of example_env_failing "PyInt 7" "[32, 9, 10, 160, 8195]"]
    sp c1 c2
  show ?thesis by simp
qed

section \<open>main.py: responses of the endpoints\<close>

lemma predict_eligibility_try_no_model:
  assumes "g_model st = None" and "model_file ev = None"
    and "py_strip (case healthSummary body of None \<Rightarrow> [] | Some s \<Rightarrow> s) = []"
  shows "predict_eligibility_try st ev body = (Inl FileNotFoundError, st)"
  using assms
  by (simp add: predict_eligibility_try_def compute_score_and_reasons_def load_model_def)

text \<open>
  The handler of /check-eligibility-from-health answers an exception with status 200,
  eligible true and no reason: not with an error status.
\<close>

theorem check_eligibility_exception_gives_200:
  "check_blood_donation_eligible example_env_failing (S ''I have cancer'')
     = Inl (OtherError ''MemoryError'')
   \<and> check_eligibility_from_health example_env_failing (S ''I have cancer'')
     = Response (EligibleReason True None)
   \<and> status_code (check_eligibility_from_health example_env_failing (S ''I have cancer'')) = 200
   \<and> status_code (check_eligibility_from_health example_env_failing (S ''I have cancer'')) \<noteq> 500
   \<and> status_code (check_eligibility_from_health example_env_failing (S ''I have cancer'')) \<noteq> 503"
  by (simp add: check_eligibility_from_health_def example_env_failing_def)

text \<open>
  Claim C3, amended. In /predict-eligibility an exception during handling becomes an HTTP
  status: 503 for \<open>FileNotFoundError\<close> (a missing model file on a request the language
  model does not score is one), 500 for any other exception; without an exception the
  result is returned. In /normalize-health every exception becomes status 500. In
  /check-eligibility-from-health an exception becomes no error status: the answer is
  eligible true with a null reason.
\<close>

theorem exception_to_status:
  "(fst (predict_eligibility_try st ev body) = Inl e
      \<longrightarrow> fst (predict_eligibility st ev body)
            = HTTPException (if e = FileNotFoundError then 503 else 500) e)
   \<and> (g_model st = None \<and> model_file ev = None
        \<and> py_strip (case healthSummary body of None \<Rightarrow> [] | Some s \<Rightarrow> s) = []
      \<longrightarrow> fst (predict_eligibility st ev body) = HTTPException 503 FileNotFoundError)
   \<and> (fst (predict_eligibility_try st ev body) = Inr result
      \<longrightarrow> fst (predict_eligibility st ev body) = Response result)
   \<and> (normalize_health_to_flags ev (PyStr text_arg) = Inl e
      \<longrightarrow> normalize_health ev text_arg = HTTPException 500 e)
   \<and> (check_blood_donation_eligible ev text_arg = Inl e
      \<longrightarrow> check_eligibility_from_health ev text_arg = Response (EligibleReason True None))"
proof -
  have a: "fst (predict_eligibility st ev body)
        = HTTPException (if e = FileNotFoundError then 503 else 500) e"
    if "fst (predict_eligibility_try st ev body) = Inl e"
    using that by (cases "predict_eligibility_try st ev body") (simp add: predict_eligibility_def)
  have b: "fst (predict_eligibility st ev body) = HTTPException 503 FileNotFoundError"
    if "g_model st = None" "model_file ev = None"
      "py_strip (case healthSummary body of None \<Rightarrow> [] | Some s \<Rightarrow> s) = []"
    using predict_eligibility_try_no_model [OF that] by (simp add: predict_eligibility_def)
  have c: "fst (predict_eligibility st ev body) = Response result"
    if "fst (predict_eligibility_try st ev body) = Inr result"
    using that
    by (cases "predict_eligibility_try st ev body"; cases result)
       (simp add: predict_eligibility_def)
  have d: "normalize_health ev text_arg = HTTPException 500 e"
    if "normalize_health_to_flags ev (PyStr text_arg) = Inl e"
    using that by (simp add: normalize_health_def)
  have f: "check_eligibility_from_health ev text_arg = Response (EligibleReason True None)"
    if "check_blood_donation_eligible ev text_arg = Inl e"
    using that by (simp add: check_eligibility_from_health_def)
  from a b c d f show ?thesis by blast
qed

theorem exception_to_status_witness:
  "fst (predict_eligibility initial_state example_env_failing example_body)
     = HTTPException 503 FileNotFoundError
   \<and> fst (predict_eligibility initial_state example_env_failing example_body_summary)
     = HTTPException 500 (OtherError ''MemoryError'')
   \<and> fst (predict_eligibility initial_state example_env example_body)
     = Response (80, [S ''Eligible by donation gap (90+ days)'',
                      S ''Proximity match '' @ [8211] @ S '' within 5 km'',
                      S ''Marked available now'', S ''High suitability score''])
   \<and> normalize_health example_env_failing (S ''fine'') = HTTPException 500 (OtherError ''LookupError'')
   \<and> check_eligibility_from_health example_env_failing (S ''fine'')
     = Response (EligibleReason True None)"
proof -
  have h1: "fst (predict_eligibility_try initial_state example_env_failing example_body)
      = Inl FileNotFoundError"
    by (simp add: predict_eligibility_try_def example_body_def example_env_failing_def
          initial_state_def compute_score_and_reasons_def load_model_def py_strip_def)
  have h2: "fst (predict_eligibility_try initial_state example_env_failing example_body_summary)
      = Inl (OtherError ''MemoryError'')"
    by (simp add: predict_eligibility_try_def example_body_def example_body_summary_def
          example_env_failing_def string_eval)
  have h3: "fst (predict_eligibility_try initial_state example_env example_body)
      = Inr (80, [S ''Eligible by donation gap (90+ days)'',
                  S ''Proximity match '' @ [8211] @ S '' within 5 km'',
                  S ''Marked available now'', S ''High suitability score''])"
    by (simp add: predict_eligibility_try_def example_body_def py_strip_def example_eval)
  have h4: "normalize_health_to_flags example_env_failing (PyStr (S ''fine''))
      = Inl (OtherError ''LookupError'')"
    by (simp add: normalize_health_to_flags_def normalize_health_to_flags_nltk_def
          tokenize_and_lemmatize_def example_env_failing_def string_eval)
  have h5: "check_blood_donation_eligible example_env_failing (S ''fine'')
      = Inl (OtherError ''MemoryError'')"
    by (simp add: example_env_failing_def)
  from exception_to_status [of initial_state example_env_failing example_body FileNotFoundError]
    h1
  have "fst (predict_eligibility initial_state example_env_failing example_body)
     = HTTPException 503 FileNotFoundError" by simp
  moreover
  from exception_to_status [of initial_state example_env_failing example_body_summary
      "OtherError ''MemoryError''"] h2
  have "fst (predict_eligibility initial_state example_env_failing example_body_summary)
     = HTTPException 500 (OtherError ''MemoryError'')" by simp
  moreover
  from exception_to_status [of initial_state example_env example_body _ _ _] h3
  have "fst (predict_eligibility initial_state example_env example_body)
     = Response (80, [S ''Eligible by donation gap (90+ days)'',
                      S ''Proximity match '' @ [8211] @ S '' within 5 km'',
                      S ''Marked available now'', S ''High suitability score''])" by blast
  moreover
  from exception_to_status [of _ example_env_failing _ "OtherError ''LookupError''" _ "S ''fine''"]
    h4
  have "normalize_health example_env_failing (S ''fine'')
     = HTTPException 500 (OtherError ''LookupError'')" by blast
  moreover
  from exception_to_status [of _ example_env_failing _ "OtherError ''MemoryError''" _ "S ''fine''"]
    h5
  have "check_eligibility_from_health example_env_failing (S ''fine'')
     = Response (EligibleReason True None)" by blast
  ultimately show ?thesis by blast
qed

text \<open>
  With a health summary and a language model that answers, the response carries its
  score although the model path would have returned one, and the module state is
  untouched; with no summary and no model file the request fails with status 503
  although the language model answers and the rule-based score exists.
\<close>

theorem llm_answer_precedes_model:
  "fst (compute_score_and_reasons initial_state example_env_llm 120 2 True (FlagList []))
     = Inr (80, [S ''Donor is nearby.''])
   \<and> predict_eligibility initial_state example_env_llm example_body_summary
     = (Response (42, [S ''Scored from the summary.'']), initial_state)
   \<and> fst (predict_eligibility initial_state (example_env_llm\<lparr>model_file := None\<rparr>) example_body)
     = HTTPException 503 FileNotFoundError
   \<and> rule_based_score 120 2 True 0 = Inr 100"
proof -
  have a: "fst (compute_score_and_reasons initial_state example_env_llm 120 2 True (FlagList []))
     = Inr (80, [S ''Donor is nearby.''])"
    by (simp add: example_eval)
  have b: "predict_eligibility initial_state example_env_llm example_body_summary
     = (Response (42, [S ''Scored from the summary.'']), initial_state)"
    by (simp add: predict_eligibility_def predict_eligibility_try_def example_body_def
          example_body_summary_def example_env_llm_def example_env_def string_eval)
  have c: "fst (predict_eligibility initial_state (example_env_llm\<lparr>model_file := None\<rparr>)
             example_body) = HTTPException 503 FileNotFoundError"
    by (simp add: predict_eligibility_def predict_eligibility_try_def example_body_def
          example_env_llm_def example_env_def initial_state_def py_strip_def
          compute_score_and_reasons_def load_model_def)
  have d: "rule_based_score 120 2 True 0 = Inr 100"
    by (simp add: rule_based_score_def Let_def np_round_numeral np_clip_def)
  from a b c d show ?thesis by blast
qed

text \<open>
  Claim C4, amended. For every /predict-eligibility request with a health summary that is
  not blank the language model is tried first: its result is the response, without a
  call to the model path, and an exception it raises is the error response. With a blank
  summary, or when the language model returns \<open>None\<close>, the pre-trained model scores the
  request; when that path raises, the response is the HTTP error and nothing else is
  tried.
\<close>

theorem predict_eligibility_order:
  assumes "health_summary = py_strip (case healthSummary body of None \<Rightarrow> [] | Some s \<Rightarrow> s)"
    and "llm = eligibility_score_from_full_context ev health_summary
                 (daysSinceLastDonation body) (distanceKm body) (isAvailableNow body)"
    and "model_path = compute_score_and_reasons st ev (daysSinceLastDonation body)
                 (distanceKm body) (isAvailableNow body) (FlagList (healthFlags body))"
  shows "(health_summary \<noteq> [] \<and> llm = Inr (Some result)
            \<longrightarrow> predict_eligibility st ev body = (Response result, st))
       \<and> (health_summary \<noteq> [] \<and> llm = Inl e
            \<longrightarrow> predict_eligibility st ev body
                  = (HTTPException (if e = FileNotFoundError then 503 else 500) e, st))
       \<and> ((health_summary = [] \<or> llm = Inr None) \<and> model_path = (Inr result, st')
            \<longrightarrow> predict_eligibility st ev body = (Response result, st'))
       \<and> ((health_summary = [] \<or> llm = Inr None) \<and> model_path = (Inl e, st')
            \<longrightarrow> predict_eligibility st ev body
                  = (HTTPException (if e = FileNotFoundError then 503 else 500) e, st'))"
proof -
  have a: "predict_eligibility st ev body = (Response result, st)"
    if "health_summary \<noteq> []" "llm = Inr (Some result)"
    using that assms(1,2)
    by (cases result) (simp add: predict_eligibility_def predict_eligibility_try_def Let_def)
  have b: "predict_eligibility st ev body
        = (HTTPException (if e = FileNotFoundError then 503 else 500) e, st)"
    if "health_summary \<noteq> []" "llm = Inl e"
    using that assms(1,2)
    by (simp add: predict_eligibility_def predict_eligibility_try_def Let_def)
  have t: "predict_eligibility_try st ev body = model_path"
    if "health_summary = [] \<or> llm = Inr None"
    using that assms
    by (auto simp: predict_eligibility_try_def Let_def)
  have c: "predict_eligibility st ev body = (Response result, st')"
    if "health_summary = [] \<or> llm = Inr None" "model_path = (Inr result, st')"
    using t [OF that(1)] that(2)
    by (cases result) (simp add: predict_eligibility_def)
  have d: "predict_eligibility st ev body
        = (HTTPException (if e = FileNotFoundError then 503 else 500) e, st')"
    if "health_summary = [] \<or> llm = Inr None" "model_path = (Inl e, st')"
    using t [OF that(1)] that(2)
    by (simp add: predict_eligibility_def)
  from a b c d show ?thesis by blast
qed

theorem predict_eligibility_order_witness:
  "predict_eligibility initial_state example_env_llm example_body_summary
     = (Response (42, [S ''Scored from the summary.'']), initial_state)
   \<and> fst (predict_eligibility initial_state example_env example_body_summary)
     = Response (80, [S ''Eligible by donation gap (90+ days)'',
                      S ''Proximity match '' @ [8211] @ S '' within 5 km'',
                      S ''Marked available now'', S ''High suitability score''])
   \<and> fst (predict_eligibility initial_state example_env_failing example_body)
     = HTTPException 503 FileNotFoundError"
proof -
  have s1: "py_strip (case healthSummary example_body_summary of None \<Rightarrow> [] | Some s \<Rightarrow> s)
      = S ''had a fever last week''"
    by (simp add: example_body_summary_def example_body_def string_eval)
  have s2: "py_strip (case healthSummary example_body of None \<Rightarrow> [] | Some s \<Rightarrow> s) = []"
    by (simp add: example_body_def py_strip_def)
  have n: "S ''had a fever last week'' \<noteq> []"
    by (simp add: S_def)
  have l1: "eligibility_score_from_full_context example_env_llm (S ''had a fever last week'')
        (daysSinceLastDonation example_body_summary) (distanceKm example_body_summary)
        (isAvailableNow example_body_summary)
      = Inr (Some (42, [S ''Scored from the summary.'']))"
    by (simp add: example_env_llm_def example_env_def)
  have l2: "eligibility_score_from_full_context example_env (S ''had a fever last week'')
        (daysSinceLastDonation example_body_summary) (distanceKm example_body_summary)
        (isAvailableNow example_body_summary)
      = Inr None"
    by (simp add: example_env_def)
  have m2: "fst (compute_score_and_reasons initial_state example_env
        (daysSinceLastDonation example_body_summary) (distanceKm example_body_summary)
        (isAvailableNow example_body_summary) (FlagList (healthFlags example_body_summary)))
      = Inr (80, [S ''Eligible by donation gap (90+ days)'',
                  S ''Proximity match '' @ [8211] @ S '' within 5 km'',
                  S ''Marked available now'', S ''High suitability score''])"
    by (simp add: example_body_summary_def example_body_def example_eval)
  have m3: "fst (compute_score_and_reasons initial_state example_env_failing
        (daysSinceLastDonation example_body) (distanceKm example_body)
        (isAvailableNow example_body) (FlagList (healthFlags example_body)))
      = Inl FileNotFoundError"
    by (simp add: compute_score_and_reasons_def load_model_def initial_state_def
          example_env_failing_def)
  from predict_eligibility_order [where ev = example_env_llm and body = example_body_summary
      and st = initial_state and result = "(42, [S ''Scored from the summary.''])",
      OF refl refl refl] s1 n l1
  have a: "predict_eligibility initial_state example_env_llm example_body_summary
     = (Response (42, [S ''Scored from the summary.'']), initial_state)"
    by simp
  from predict_eligibility_order [where ev = example_env and body = example_body_summary
      and st = initial_state
      and result = "(80, [S ''Eligible by donation gap (90+ days)'',
             S ''Proximity match '' @ [8211] @ S '' within 5 km'',
             S ''Marked available now'', S ''High suitability score''])"
      and st' = "snd (compute_score_and_reasons initial_state example_env
        (daysSinceLastDonation example_body_summary) (distanceKm example_body_summary)
        (isAvailableNow example_body_summary) (FlagList (healthFlags example_body_summary)))",
      OF refl refl refl]
    s1 l2 m2
  have b: "fst (predict_eligibility initial_state example_env example_body_summary)
     = Response (80, [S ''Eligible by donation gap (90+ days)'',
                      S ''Proximity match '' @ [8211] @ S '' within 5 km'',
                      S ''Marked available now'', S ''High suitability score''])"
    by (simp add: prod_eq_iff)
  from predict_eligibility_order [where ev = example_env_failing and body = example_body
      and st = initial_state and e = FileNotFoundError
      and st' = "snd (compute_score_and_reasons initial_state example_env_failing
        (daysSinceLastDonation example_body) (distanceKm example_body)
        (isAvailableNow example_body) (FlagList (healthFlags example_body)))",
      OF refl refl refl]
    s2 m3
  have c: "fst (predict_eligibility initial_state example_env_failing example_body)
     = HTTPException 503 FileNotFoundError"
    by (simp add: prod_eq_iff)
  from a b c show ?thesis by blast
qed

end
